theory Spec2Isabelle
  imports Main "HOL-Library.Multiset" "HOL-Library.Char_ord" "HOL-Library.List_Lexorder"
begin

section \<open>Data model\<close>

text \<open>
  The dashboard of \<^verbatim>\<open>src/App.tsx\<close> works on three fetched collections: the students,
  the exercises and, per student, a \<^verbatim>\<open>Map\<close> from exercise name to the student's
  submissions. The declarations of \<^verbatim>\<open>Student\<close>, \<^verbatim>\<open>Exercise\<close> and
  \<^verbatim>\<open>StudentExercise\<close> live in the query modules; the code reads the fields below and
  no others, so the records are used through their extensible schemes where that matters.
\<close>

record 'i Student =
  student_id :: 'i
  username :: string

record Exercise =
  exercise_name :: string

text \<open>
  A submission is read as \<^verbatim>\<open>x?.exerciseProgress?.status ?? ""\<close>: the progress object
  and its status may each be missing, which is \<open>None\<close> here.
\<close>

record ExerciseProgress =
  status :: "string option"

record StudentExercise =
  exerciseProgress :: "ExerciseProgress option"

text \<open>
  A table row is \<^verbatim>\<open>{ username, statuses }\<close>; its first field is \<open>row_username\<close>
  here, since \<open>username\<close> is the field of a student. The \<^verbatim>\<open>statuses\<close> object is
  a plain object created by \<^verbatim>\<open>{}\<close>: the record holds its own properties, one entry
  per key, and what the object inherits from \<^verbatim>\<open>Object.prototype\<close> is added by the
  operations that write and read it (\<open>obj_set\<close> and \<open>obj_get\<close> below).
\<close>

record TableRow =
  row_username :: string
  statuses :: "(string \<times> string) list"

subsection \<open>Plain objects used as dictionaries\<close>

text \<open>
  The names every plain object inherits from \<^verbatim>\<open>Object.prototype\<close>. All of them are
  methods, writable data properties, except \<^verbatim>\<open>__proto__\<close>, which is an accessor.
\<close>

definition objectPrototypeMembers :: "string list" where
  "objectPrototypeMembers =
     [''constructor'', ''__defineGetter__'', ''__defineSetter__'', ''hasOwnProperty'',
      ''__lookupGetter__'', ''__lookupSetter__'', ''isPrototypeOf'', ''propertyIsEnumerable'',
      ''toString'', ''valueOf'', ''__proto__'', ''toLocaleString'']"

text \<open>
  What \<^verbatim>\<open>obj[k]\<close> can give on such an object whose own values are strings: a string,
  \<^verbatim>\<open>undefined\<close>, or the inherited member of that name.
\<close>

datatype js_value = JsUndefined | JsString string | JsInherited string

subsection \<open>Arrays behind references\<close>

text \<open>
  JavaScript arrays are objects behind references: \<^verbatim>\<open>filter\<close> builds a new array,
  \<^verbatim>\<open>sort\<close> reorders the array it is called on and returns that same array. The store
  holds the arrays, a reference is an index into it, and every operation returns the
  reference of its result together with the store it leaves behind.
\<close>

type_synonym ref = nat
type_synonym 'a store = "'a list list"

definition array_new :: "'a list \<Rightarrow> 'a store \<Rightarrow> ref \<times> 'a store" where
  "array_new xs h = (length h, h @ [xs])"

definition array_filter :: "('a \<Rightarrow> bool) \<Rightarrow> ref \<Rightarrow> 'a store \<Rightarrow> ref \<times> 'a store" where
  "array_filter p a h = array_new (filter p (h ! a)) h"

text \<open>
  \<^verbatim>\<open>Array.prototype.sort\<close> with a comparator is stable and, for a consistent comparator,
  leaves the array ordered: \<^verbatim>\<open>a\<close> stays before \<^verbatim>\<open>b\<close> unless \<^verbatim>\<open>cmp(a, b) > 0\<close>.
  Every stable sort computes the same array for such a comparator; insertion from the
  right is the one written here.
\<close>

fun insert_by :: "('a \<Rightarrow> 'a \<Rightarrow> int) \<Rightarrow> 'a \<Rightarrow> 'a list \<Rightarrow> 'a list" where
  "insert_by cmp x [] = [x]"
| "insert_by cmp x (y # ys) =
     (if cmp x y \<le> 0 then x # y # ys else y # insert_by cmp x ys)"

fun sort_by :: "('a \<Rightarrow> 'a \<Rightarrow> int) \<Rightarrow> 'a list \<Rightarrow> 'a list" where
  "sort_by cmp [] = []"
| "sort_by cmp (x # xs) = insert_by cmp x (sort_by cmp xs)"

definition array_sort :: "('a \<Rightarrow> 'a \<Rightarrow> int) \<Rightarrow> ref \<Rightarrow> 'a store \<Rightarrow> ref \<times> 'a store" where
  "array_sort cmp a h = (a, h[a := sort_by cmp (h ! a)])"

definition deref :: "ref \<times> 'a store \<Rightarrow> 'a list" where
  "deref r = snd r ! fst r"

section \<open>Roster Filter\<close>

text \<open>
  \<^verbatim>\<open>filteredExercises\<close> (lines 17-29). \<^verbatim>\<open>EXERCISES\<close> is the configured allow-list,
  \<^verbatim>\<open>allExercises\<close> the fetched array (\<open>None\<close> while it is \<^verbatim>\<open>undefined\<close>), and
  \<^verbatim>\<open>String.prototype.localeCompare\<close> is the platform's collation, a parameter.
\<close>

definition filteredExercises ::
  "(string \<Rightarrow> string \<Rightarrow> int) \<Rightarrow> string list \<Rightarrow> ref option \<Rightarrow> bool \<Rightarrow>
     ('z Exercise_scheme) store \<Rightarrow> ref \<times> ('z Exercise_scheme) store" where
  "filteredExercises localeCompare EXERCISES allExercises isExercisesLoading h =
     (case allExercises of
        None \<Rightarrow> array_new [] h
      | Some a \<Rightarrow>
          if isExercisesLoading then array_new [] h
          else
            (let (exercises, h1) =
                   (if length EXERCISES = 0 then (a, h)
                    else array_filter (\<lambda>exercise. exercise_name exercise \<in> set EXERCISES) a h)
             in array_sort (\<lambda>a b. localeCompare (exercise_name a) (exercise_name b))
                  exercises h1))"

text \<open>\<^verbatim>\<open>filteredStudents\<close> (lines 34-38), with the allow-list \<^verbatim>\<open>STUDENTS\<close>.\<close>

definition filteredStudents ::
  "string list \<Rightarrow> ref option \<Rightarrow> bool \<Rightarrow>
     (('i, 'z) Student_scheme) store \<Rightarrow> ref \<times> (('i, 'z) Student_scheme) store" where
  "filteredStudents STUDENTS allStudents isStudentsLoading h =
     (case allStudents of
        None \<Rightarrow> array_new [] h
      | Some a \<Rightarrow>
          if isStudentsLoading then array_new [] h
          else array_filter (\<lambda>student. username student \<in> set STUDENTS) a h)"

text \<open>
  What ECMAScript calls a consistent comparator, on strings: comparing a value with
  itself gives 0, swapping the arguments swaps the sign, and "not after" is transitive.
  \<^verbatim>\<open>localeCompare\<close> is one in every locale.
\<close>

definition consistent_comparator :: "(string \<Rightarrow> string \<Rightarrow> int) \<Rightarrow> bool" where
  "consistent_comparator cmp \<longleftrightarrow>
     (\<forall>a. cmp a a = 0) \<and>
     (\<forall>a b. cmp a b < 0 \<longleftrightarrow> 0 < cmp b a) \<and>
     (\<forall>a b c. cmp a b \<le> 0 \<and> cmp b c \<le> 0 \<longrightarrow> cmp a c \<le> 0)"

text \<open>
  A concrete collation to run the filter on: the strings compared character by
  character, which is what \<^verbatim>\<open>localeCompare\<close> gives on lower-case ASCII names.
\<close>

definition codeUnitCompare :: "string \<Rightarrow> string \<Rightarrow> int" where
  "codeUnitCompare a b = (if a < b then - 1 else if a = b then 0 else 1)"

section \<open>Progress Resolver\<close>

text \<open>
  A \<^verbatim>\<open>Map\<close> is an association list holding each key once, in insertion order:
  \<^verbatim>\<open>get\<close> is \<open>map_of\<close>, and \<^verbatim>\<open>set\<close> overwrites the entry of the key or appends a
  new one.
\<close>

fun assoc_set :: "'k \<Rightarrow> 'v \<Rightarrow> ('k \<times> 'v) list \<Rightarrow> ('k \<times> 'v) list" where
  "assoc_set k v [] = [(k, v)]"
| "assoc_set k v (p # ps) = (if fst p = k then (k, v) # ps else p # assoc_set k v ps)"

text \<open>
  \<^verbatim>\<open>obj[k] = v\<close> with a string \<^verbatim>\<open>v\<close> on a plain object: the assignment makes or
  overwrites the own property \<^verbatim>\<open>k\<close>, also where \<^verbatim>\<open>k\<close> names an inherited method.
  The one exception is \<^verbatim>\<open>__proto__\<close>: the assignment runs the inherited setter, which
  ignores a value that is not an object, and the object is left as it was.
\<close>

definition obj_set :: "string \<Rightarrow> string \<Rightarrow> (string \<times> string) list \<Rightarrow> (string \<times> string) list" where
  "obj_set k v props = (if k = ''__proto__'' then props else assoc_set k v props)"

text \<open>
  \<^verbatim>\<open>obj[k]\<close>: the own property if there is one, else the member inherited under that
  name, else \<^verbatim>\<open>undefined\<close>.
\<close>

definition obj_get :: "(string \<times> string) list \<Rightarrow> string \<Rightarrow> js_value" where
  "obj_get props k =
     (case map_of props k of
        Some v \<Rightarrow> JsString v
      | None \<Rightarrow> if k \<in> set objectPrototypeMembers then JsInherited k else JsUndefined)"

text \<open>
  \<^verbatim>\<open>Array.prototype.at\<close>: a negative index counts from the end, and an index outside
  the array gives \<^verbatim>\<open>undefined\<close>.
\<close>

definition array_at :: "'a list \<Rightarrow> int \<Rightarrow> 'a option" where
  "array_at xs i =
     (let n = int (length xs); k = (if i < 0 then n + i else i)
      in if 0 \<le> k \<and> k < n then Some (xs ! nat k) else None)"

text \<open>
  \<^verbatim>\<open>latestStatus\<close> (lines 148-157). The non-null assertion of
  \<^verbatim>\<open>exercises.at(-1)!\<close> is erased at run time, so the values of the result are
  submissions or \<^verbatim>\<open>undefined\<close>.
\<close>

definition latestStatus ::
  "(string \<times> 's list) list option \<Rightarrow> bool \<Rightarrow> (string \<times> 's option) list" where
  "latestStatus studentProgress isStudentProgressLoading =
     (case studentProgress of
        None \<Rightarrow> []
      | Some progress \<Rightarrow>
          if isStudentProgressLoading then []
          else fold (\<lambda>(exerciseName, exercises) result.
                       assoc_set exerciseName (array_at exercises (- 1)) result)
                 progress [])"

text \<open>
  \<^verbatim>\<open>latestStatus.get(name)?.exerciseProgress?.status ?? ""\<close> (lines 180 and 197):
  each \<^verbatim>\<open>?.\<close> passes \<^verbatim>\<open>undefined\<close> on, and \<^verbatim>\<open>??\<close> replaces it at the end.
\<close>

definition nullish :: "'a option \<Rightarrow> 'a \<Rightarrow> 'a" where
  "nullish v d = (case v of None \<Rightarrow> d | Some x \<Rightarrow> x)"

definition rawStatus ::
  "(string \<times> 'z StudentExercise_scheme option) list \<Rightarrow> string \<Rightarrow> string" where
  "rawStatus latest name =
     nullish (Option.bind (Option.bind (Option.bind (map_of latest name) (\<lambda>x. x))
                exerciseProgress) status) []"

section \<open>Row Aggregator\<close>

text \<open>\<^verbatim>\<open>handleRowComputed\<close> (lines 44-56), on the value of \<^verbatim>\<open>tableDataRef.current\<close>.\<close>

definition handleRowComputed :: "TableRow list \<Rightarrow> TableRow \<Rightarrow> TableRow list" where
  "handleRowComputed tableData row =
     filter (\<lambda>r. row_username r \<noteq> row_username row) tableData @ [row]"

text \<open>
  The collection starts empty and changes through \<^verbatim>\<open>handleRowComputed\<close> only, so its
  reachable values are those left by a sequence of computed rows.
\<close>

definition tableData_after :: "TableRow list \<Rightarrow> TableRow list" where
  "tableData_after computed = foldl handleRowComputed [] computed"

text \<open>
  The row of a student (lines 175-190): once the student's progress is not loading,
  one status per filtered exercise, and the row is handed to \<^verbatim>\<open>onRowComputed\<close>.
\<close>

definition computedStatuses ::
  "(string \<times> 'z StudentExercise_scheme option) list \<Rightarrow> 'y Exercise_scheme list \<Rightarrow>
     (string \<times> string) list" where
  "computedStatuses latest filteredExs =
     fold (\<lambda>ex statuses. obj_set (exercise_name ex) (rawStatus latest (exercise_name ex)) statuses)
       filteredExs []"

definition rowComputed ::
  "('i, 'x) Student_scheme \<Rightarrow> (string \<times> 'z StudentExercise_scheme option) list \<Rightarrow>
     'y Exercise_scheme list \<Rightarrow> bool \<Rightarrow> TableRow list \<Rightarrow> TableRow list" where
  "rowComputed student latest filteredExs isStudentProgressLoading tableData =
     (if \<not> isStudentProgressLoading
      then handleRowComputed tableData
             \<lparr>row_username = username student, statuses = computedStatuses latest filteredExs\<rparr>
      else tableData)"

section \<open>Status Presenter\<close>

text \<open>
  The argument of \<^verbatim>\<open>getEmoji\<close> is a string, \<^verbatim>\<open>null\<close> or \<^verbatim>\<open>undefined\<close>. The three
  symbols are written as the bytes the source file holds for them (UTF-8).
\<close>

datatype 'a nullable = Undefined | Null | Value 'a

definition success_symbol :: string where
  "success_symbol = [CHR 0xE2, CHR 0x9C, CHR 0x85]"

definition failure_symbol :: string where
  "failure_symbol = [CHR 0xE2, CHR 0x9D, CHR 0x8C]"

definition error_symbol :: string where
  "error_symbol = [CHR 0xE2, CHR 0x9A, CHR 0xA0, CHR 0xEF, CHR 0xB8, CHR 0x8F]"

definition blank_symbol :: string where
  "blank_symbol = []"

text \<open>\<^verbatim>\<open>getEmoji\<close> (lines 159-173): a \<^verbatim>\<open>switch\<close> on strict equality with a default.\<close>

definition getEmoji :: "string nullable \<Rightarrow> string" where
  "getEmoji st =
     (if st = Value ''SUCCESSFUL'' \<or> st = Value ''Completed'' then success_symbol
      else if st = Value ''UNSUCCESSFUL'' \<or> st = Value ''Incomplete'' then failure_symbol
      else if st = Value ''ERROR'' \<or> st = Value ''Error'' then error_symbol
      else blank_symbol)"

text \<open>The cell drawn for an exercise (lines 195-203).\<close>

definition renderCell ::
  "(string \<times> 'z StudentExercise_scheme option) list \<Rightarrow> 'y Exercise_scheme \<Rightarrow> string" where
  "renderCell latest exercise = getEmoji (Value (rawStatus latest (exercise_name exercise)))"

section \<open>Snapshot Exporter\<close>

text \<open>\<^verbatim>\<open>Array.prototype.join\<close> on an array of strings.\<close>

fun join :: "string \<Rightarrow> string list \<Rightarrow> string" where
  "join sep [] = []"
| "join sep [x] = x"
| "join sep (x # y # ys) = x @ sep @ join sep (y # ys)"

text \<open>The decimal digits of a timestamp, as a template literal prints a whole number.\<close>

fun show_nat :: "nat \<Rightarrow> string" where
  "show_nat n =
     (if n < 10 then [''0123456789'' ! n]
      else show_nat (n div 10) @ [''0123456789'' ! (n mod 10)])"

declare show_nat.simps [simp del]

definition show_int :: "int \<Rightarrow> string" where
  "show_int i = (if i < 0 then CHR ''-'' # show_nat (nat (- i)) else show_nat (nat i))"

text \<open>
  What the browser is asked to save: the name of the file, the type of the blob and the
  text in it.
\<close>

record download =
  filename :: string
  mime :: string
  content :: string

definition csvHeaders :: "'y Exercise_scheme list \<Rightarrow> string list" where
  "csvHeaders filteredExs = ''Github Username'' # map exercise_name filteredExs"

text \<open>
  The cells of a row (lines 65-68): \<^verbatim>\<open>row.statuses[name] ?? ""\<close> replaces
  \<^verbatim>\<open>undefined\<close> only, so an inherited member stays in the row.
\<close>

definition csvRow :: "'y Exercise_scheme list \<Rightarrow> TableRow \<Rightarrow> js_value list" where
  "csvRow filteredExs row =
     JsString (row_username row) #
     map (\<lambda>ex. case obj_get (statuses row) (exercise_name ex) of
                  JsUndefined \<Rightarrow> JsString []
                | v \<Rightarrow> v)
       filteredExs"

text \<open>
  \<^verbatim>\<open>r.join(",")\<close> turns every cell into text first: a string is itself,
  \<^verbatim>\<open>undefined\<close> is the empty string, the object behind \<^verbatim>\<open>__proto__\<close> prints as
  \<^verbatim>\<open>[object Object]\<close>, and an inherited method prints as the platform prints a
  built-in function, which is the parameter \<open>functionText\<close>.
\<close>

definition js_text :: "(string \<Rightarrow> string) \<Rightarrow> js_value \<Rightarrow> string" where
  "js_text functionText v =
     (case v of
        JsUndefined \<Rightarrow> []
      | JsString s \<Rightarrow> s
      | JsInherited k \<Rightarrow> if k = ''__proto__'' then ''[object Object]'' else functionText k)"

text \<open>
  The text of a built-in method in one common engine, to run the exporter on; the
  method found under \<^verbatim>\<open>constructor\<close> is the function \<^verbatim>\<open>Object\<close>.
\<close>

definition nativeFunctionText :: "string \<Rightarrow> string" where
  "nativeFunctionText k =
     ''function '' @ (if k = ''constructor'' then ''Object'' else k) @ ''() { [native code] }''"

text \<open>
  \<^verbatim>\<open>downloadCSV\<close> (lines 58-82), with \<^verbatim>\<open>Date.now()\<close> as the argument \<open>now\<close>. The
  early return is \<open>None\<close>: no blob, no link, no click.
\<close>

definition downloadCSV ::
  "(string \<Rightarrow> string) \<Rightarrow> int \<Rightarrow> TableRow list \<Rightarrow> 'y Exercise_scheme list \<Rightarrow> download option" where
  "downloadCSV functionText now tableData filteredExs =
     (if length tableData = 0 then None
      else
        (let headers = csvHeaders filteredExs;
             rows = map (csvRow filteredExs) tableData;
             csvContent = join '','' headers @ [CHR 0x0A] @
                          join [CHR 0x0A] (map (\<lambda>r. join '','' (map (js_text functionText) r)) rows);
             timestamp = now div 1000
         in Some \<lparr>filename = ''progress_'' @ show_int timestamp @ ''.csv'',
                  mime = ''text/csv;charset=utf-8;'',
                  content = csvContent\<rparr>))"

text \<open>
  Reading a document back: \<^verbatim>\<open>String.prototype.split\<close> at a one-character separator.
\<close>

fun split :: "char \<Rightarrow> string \<Rightarrow> string list" where
  "split c [] = [[]]"
| "split c (x # xs) =
     (if x = c then [] # split c xs
      else (case split c xs of [] \<Rightarrow> [[x]] | w # ws \<Rightarrow> (x # w) # ws))"

text \<open>
  The document as the specification words it, every row ended by a newline; it is what
  the exporter's text is compared with.
\<close>

definition newline_terminated_rows :: "string list list \<Rightarrow> string" where
  "newline_terminated_rows table = concat (map (\<lambda>fs. join '','' fs @ [CHR 0x0A]) table)"

section \<open>Roster Filter: students\<close>

lemma filteredStudents_fetched:
  "deref (filteredStudents STUDENTS (Some a) False h) =
     filter (\<lambda>student. username student \<in> set STUDENTS) (h ! a)"
  by (simp add: filteredStudents_def array_filter_def array_new_def deref_def)

text \<open>
  Claim C1. With an empty username allow-list the filtered student list should hold
  every fetched student. The code has no test for the empty allow-list on this path
  (the exercise path has one): for the fetched list holding the one student
  \<^verbatim>\<open>{id: 1, username: "ann"}\<close> and \<^verbatim>\<open>STUDENTS = []\<close> the filtered list is empty.
\<close>

theorem filteredStudents_empty_allow_list:
  "deref (filteredStudents [] (Some 0) False
            [[\<lparr>student_id = 1 :: int, username = ''ann''\<rparr>]]) = []"
  by (simp add: filteredStudents_def array_filter_def array_new_def deref_def)

section \<open>Roster Filter: exercises\<close>

lemma consistent_codeUnitCompare: "consistent_comparator codeUnitCompare"
  unfolding consistent_comparator_def codeUnitCompare_def
  by (auto simp: not_less)

lemma consistent_total:
  "consistent_comparator cmp \<Longrightarrow> cmp a b \<le> 0 \<or> cmp b a \<le> 0"
  unfolding consistent_comparator_def by (metis not_less order_less_imp_le)

lemma consistent_trans:
  "consistent_comparator cmp \<Longrightarrow> cmp a b \<le> 0 \<Longrightarrow> cmp b c \<le> 0 \<Longrightarrow> cmp a c \<le> 0"
  unfolding consistent_comparator_def by blast

lemma mset_insert_by: "mset (insert_by cmp x xs) = add_mset x (mset xs)"
  by (induction xs) simp_all

lemma mset_sort_by: "mset (sort_by cmp xs) = mset xs"
  by (induction xs) (simp_all add: mset_insert_by)

lemma set_insert_by: "set (insert_by cmp x xs) = insert x (set xs)"
  by (induction xs) auto

lemma sorted_insert_by:
  assumes total: "\<And>a b. cmp a b \<le> 0 \<or> cmp b a \<le> 0"
    and trans: "\<And>a b c. cmp a b \<le> 0 \<Longrightarrow> cmp b c \<le> 0 \<Longrightarrow> cmp a c \<le> 0"
    and sorted: "sorted_wrt (\<lambda>a b. cmp a b \<le> 0) xs"
  shows "sorted_wrt (\<lambda>a b. cmp a b \<le> 0) (insert_by cmp x xs)"
  using sorted
proof (induction xs)
  case Nil
  then show ?case by simp
next
  case (Cons y ys)
  show ?case
  proof (cases "cmp x y \<le> 0")
    case True
    with Cons.prems show ?thesis by (auto intro: trans)
  next
    case False
    with total [of x y] have "cmp y x \<le> 0" by simp
    with False Cons show ?thesis by (auto simp: set_insert_by)
  qed
qed

lemma sorted_sort_by:
  assumes total: "\<And>a b. cmp a b \<le> 0 \<or> cmp b a \<le> 0"
    and trans: "\<And>a b c. cmp a b \<le> 0 \<Longrightarrow> cmp b c \<le> 0 \<Longrightarrow> cmp a c \<le> 0"
  shows "sorted_wrt (\<lambda>a b. cmp a b \<le> 0) (sort_by cmp xs)"
  by (induction xs) (simp_all add: sorted_insert_by [OF total trans])

text \<open>The array the filter returns once the fetch is done, read off the store.\<close>

lemma filteredExercises_fetched:
  assumes "a < length h"
  shows "deref (filteredExercises lc EXERCISES (Some a) False h) =
     sort_by (\<lambda>a b. lc (exercise_name a) (exercise_name b))
       (if length EXERCISES = 0 then h ! a
        else filter (\<lambda>exercise. exercise_name exercise \<in> set EXERCISES) (h ! a))"
  using assms
  by (simp add: filteredExercises_def array_filter_def array_new_def array_sort_def deref_def)

text \<open>
  Claim C3. For a fetched exercise list (the array at the live reference \<open>a\<close>, not
  loading): with an empty allow-list the filtered list holds every fetched exercise,
  with a non-empty one exactly the fetched exercises whose name is in the allow-list
  (as multisets, so nothing is lost or repeated), and in both cases it is in ascending
  order of \<^verbatim>\<open>localeCompare\<close> on the names.
\<close>

theorem filteredExercises_selects_and_sorts:
  assumes "consistent_comparator localeCompare" and "a < length h"
  shows "(EXERCISES = [] \<longrightarrow>
            mset (deref (filteredExercises localeCompare EXERCISES (Some a) False h)) =
            mset (h ! a)) \<and>
         (EXERCISES \<noteq> [] \<longrightarrow>
            mset (deref (filteredExercises localeCompare EXERCISES (Some a) False h)) =
            mset (filter (\<lambda>e. exercise_name e \<in> set EXERCISES) (h ! a))) \<and>
         sorted_wrt (\<lambda>x y. localeCompare (exercise_name x) (exercise_name y) \<le> 0)
           (deref (filteredExercises localeCompare EXERCISES (Some a) False h))"
proof -
  let ?cmp = "\<lambda>x y. localeCompare (exercise_name x) (exercise_name y)"
  have total: "\<And>x y. ?cmp x y \<le> 0 \<or> ?cmp y x \<le> 0"
    using assms(1) by (rule consistent_total)
  have trans: "\<And>x y z. ?cmp x y \<le> 0 \<Longrightarrow> ?cmp y z \<le> 0 \<Longrightarrow> ?cmp x z \<le> 0"
    using assms(1) by (rule consistent_trans)
  have "sorted_wrt (\<lambda>x y. ?cmp x y \<le> 0) (sort_by ?cmp xs)" for xs :: "'a Exercise_scheme list"
    using total trans by (rule sorted_sort_by)
  then show ?thesis
    by (simp add: filteredExercises_fetched [OF assms(2)] mset_sort_by)
qed

theorem filteredExercises_selects_and_sorts_witness:
  "consistent_comparator codeUnitCompare \<and>
   (0::nat) < length [[\<lparr>exercise_name = ''loops''\<rparr>, \<lparr>exercise_name = ''git''\<rparr>,
                       \<lparr>exercise_name = ''arrays''\<rparr>]] \<and>
   [''loops'', ''arrays''] \<noteq> [] \<and>
   deref (filteredExercises codeUnitCompare [''loops'', ''arrays''] (Some 0) False
            [[\<lparr>exercise_name = ''loops''\<rparr>, \<lparr>exercise_name = ''git''\<rparr>,
              \<lparr>exercise_name = ''arrays''\<rparr>]]) =
     [\<lparr>exercise_name = ''arrays''\<rparr>, \<lparr>exercise_name = ''loops''\<rparr>] \<and>
   sorted_wrt (\<lambda>x y. codeUnitCompare (exercise_name x) (exercise_name y) \<le> 0)
     (deref (filteredExercises codeUnitCompare [''loops'', ''arrays''] (Some 0) False
            [[\<lparr>exercise_name = ''loops''\<rparr>, \<lparr>exercise_name = ''git''\<rparr>,
              \<lparr>exercise_name = ''arrays''\<rparr>]]))"
proof -
  let ?h = "[[\<lparr>exercise_name = ''loops''\<rparr>, \<lparr>exercise_name = ''git''\<rparr>,
              \<lparr>exercise_name = ''arrays''\<rparr>]]"
  have live: "(0::nat) < length ?h" by simp
  have run: "deref (filteredExercises codeUnitCompare [''loops'', ''arrays''] (Some 0) False ?h) =
     [\<lparr>exercise_name = ''arrays''\<rparr>, \<lparr>exercise_name = ''loops''\<rparr>]"
    by (simp add: filteredExercises_def array_filter_def array_new_def array_sort_def
        deref_def codeUnitCompare_def)
  from filteredExercises_selects_and_sorts
         [OF consistent_codeUnitCompare live, of "[''loops'', ''arrays'']"]
  show ?thesis using consistent_codeUnitCompare run by simp
qed

subsection \<open>The inputs after the filter has run\<close>

text \<open>
  Both filters leave every array of the store as it was when they go through
  \<^verbatim>\<open>filter\<close>, which allocates: the students always, the exercises when the
  allow-list is not empty.
\<close>

lemma filteredStudents_keeps_store:
  "take (length h) (snd (filteredStudents STUDENTS allStudents isStudentsLoading h)) = h"
  by (simp add: filteredStudents_def array_filter_def array_new_def split: option.splits)

lemma filteredExercises_keeps_store_nonempty:
  "EXERCISES \<noteq> [] \<Longrightarrow> a < length h \<Longrightarrow>
   take (length h) (snd (filteredExercises lc EXERCISES (Some a) isExercisesLoading h)) = h"
  by (simp add: filteredExercises_def array_filter_def array_new_def array_sort_def)

text \<open>
  Claim C9. The Roster Filter should leave its inputs as they were. With an empty
  exercise allow-list the code sorts \<^verbatim>\<open>allExercises\<close> itself: for the fetched array
  \<^verbatim>\<open>[{exercise_name: "loops"}, {exercise_name: "arrays"}]\<close> at reference 0, the array at
  reference 0 is \<^verbatim>\<open>[arrays, loops]\<close> afterwards, and it is the array returned.
\<close>

theorem filteredExercises_reorders_fetched_array:
  "filteredExercises codeUnitCompare [] (Some 0) False
     [[\<lparr>exercise_name = ''loops''\<rparr>, \<lparr>exercise_name = ''arrays''\<rparr>]] =
   (0, [[\<lparr>exercise_name = ''arrays''\<rparr>, \<lparr>exercise_name = ''loops''\<rparr>]])"
  by (simp add: filteredExercises_def array_sort_def codeUnitCompare_def)

section \<open>Progress Resolver: the latest submission\<close>

lemma map_of_assoc_set: "map_of (assoc_set k v ps) = (map_of ps)(k \<mapsto> v)"
  by (induction ps) (auto simp: fun_eq_iff)

lemma array_at_last: "xs \<noteq> [] \<Longrightarrow> array_at xs (- 1) = Some (last xs)"
  by (simp add: array_at_def Let_def last_conv_nth nat_diff_distrib')

lemma array_at_empty: "array_at [] i = None"
  by (simp add: array_at_def)

lemma map_of_fold_latest:
  "map_of (fold (\<lambda>(exerciseName, exercises) result.
                   assoc_set exerciseName (array_at exercises (- 1)) result) progress acc) n =
   (case map_of (rev progress) n of
      None \<Rightarrow> map_of acc n
    | Some exercises \<Rightarrow> Some (array_at exercises (- 1)))"
proof (induction progress arbitrary: acc)
  case Nil
  then show ?case by simp
next
  case (Cons p ps)
  obtain k v where p: "p = (k, v)" by (cases p)
  show ?case
    by (simp add: p Cons.IH map_of_assoc_set map_add_def split: option.splits)
qed

lemma map_of_latestStatus:
  "map_of (latestStatus (Some progress) False) n =
     map_option (\<lambda>exercises. array_at exercises (- 1)) (map_of (rev progress) n)"
  by (simp add: latestStatus_def map_of_fold_latest split: option.splits)

lemma latestStatus_not_fetched:
  "latestStatus None loading = []" "latestStatus fetched True = []"
  by (simp_all add: latestStatus_def split: option.splits)

text \<open>
  Claim C2. For a fetched progress map (each exercise name once) whose sequences are all
  non-empty, the resolver's output maps every name of the map to the last element of
  its sequence and has no entry for a name that is not in the map; while the fetch has
  not completed (data absent, or loading) the output is the empty map. The code has no
  operation that throws on this path.
\<close>

theorem latestStatus_last_element:
  assumes "distinct (map fst progress)"
    and "\<forall>(name, exercises) \<in> set progress. exercises \<noteq> []"
  shows "(\<forall>(name, exercises) \<in> set progress.
            map_of (latestStatus (Some progress) False) name = Some (Some (last exercises))) \<and>
         (\<forall>name. name \<notin> fst ` set progress \<longrightarrow>
            map_of (latestStatus (Some progress) False) name = None) \<and>
         (\<forall>loading. latestStatus None loading = ([] :: (string \<times> 's option) list)) \<and>
         (\<forall>fetched. latestStatus fetched True = ([] :: (string \<times> 's option) list))"
proof -
  have rev: "map_of (rev progress) = map_of progress"
    using assms(1) by (simp add: map_of_inject_set distinct_map)
  have present: "map_of (latestStatus (Some progress) False) name = Some (Some (last exercises))"
    if "(name, exercises) \<in> set progress" for name exercises
  proof -
    from that assms(1) have "map_of progress name = Some exercises" by simp
    moreover from that assms(2) have "exercises \<noteq> []" by auto
    ultimately show ?thesis by (simp add: map_of_latestStatus rev array_at_last)
  qed
  have absent: "map_of (latestStatus (Some progress) False) name = None"
    if "name \<notin> fst ` set progress" for name
  proof -
    from that have "map_of progress name = None" by (simp add: map_of_eq_None_iff)
    then show ?thesis by (simp add: map_of_latestStatus rev)
  qed
  from present absent show ?thesis
    by (auto simp: latestStatus_not_fetched)
qed

theorem latestStatus_last_element_witness:
  "distinct (map fst [(''loops'', [\<lparr>exerciseProgress = Some \<lparr>status = Some ''UNSUCCESSFUL''\<rparr>\<rparr>,
                                    \<lparr>exerciseProgress = Some \<lparr>status = Some ''SUCCESSFUL''\<rparr>\<rparr>]),
                       (''git'', [\<lparr>exerciseProgress = None\<rparr>])]) \<and>
   map_of (latestStatus
             (Some [(''loops'', [\<lparr>exerciseProgress = Some \<lparr>status = Some ''UNSUCCESSFUL''\<rparr>\<rparr>,
                                 \<lparr>exerciseProgress = Some \<lparr>status = Some ''SUCCESSFUL''\<rparr>\<rparr>]),
                    (''git'', [\<lparr>exerciseProgress = None\<rparr>])]) False) ''loops'' =
     Some (Some \<lparr>exerciseProgress = Some \<lparr>status = Some ''SUCCESSFUL''\<rparr>\<rparr>) \<and>
   map_of (latestStatus
             (Some [(''loops'', [\<lparr>exerciseProgress = Some \<lparr>status = Some ''UNSUCCESSFUL''\<rparr>\<rparr>,
                                 \<lparr>exerciseProgress = Some \<lparr>status = Some ''SUCCESSFUL''\<rparr>\<rparr>]),
                    (''git'', [\<lparr>exerciseProgress = None\<rparr>])]) False) ''arrays'' = None"
proof -
  let ?p = "[(''loops'', [\<lparr>exerciseProgress = Some \<lparr>status = Some ''UNSUCCESSFUL''\<rparr>\<rparr>,
                          \<lparr>exerciseProgress = Some \<lparr>status = Some ''SUCCESSFUL''\<rparr>\<rparr>]),
             (''git'', [\<lparr>exerciseProgress = None\<rparr>])]"
  have d: "distinct (map fst ?p)" by simp
  have n: "\<forall>(name, exercises) \<in> set ?p. exercises \<noteq> []" by simp
  from latestStatus_last_element [OF d n] d show ?thesis
    by (simp add: latestStatus_def array_at_def)
qed

section \<open>Row Aggregator: one row per username\<close>

lemma distinct_handleRowComputed:
  "distinct (map row_username tableData) \<Longrightarrow>
   distinct (map row_username (handleRowComputed tableData row))"
  by (auto simp: handleRowComputed_def distinct_map_filter)

lemma distinct_tableData_after: "distinct (map row_username (tableData_after computed))"
  by (induction computed rule: rev_induct)
     (simp_all add: tableData_after_def distinct_handleRowComputed)

lemma distinct_at_most_one:
  "distinct (map f xs) \<Longrightarrow> length (filter (\<lambda>r. f r = u) xs) \<le> 1"
proof (induction xs)
  case Nil
  then show ?case by simp
next
  case (Cons x xs)
  show ?case
  proof (cases "f x = u")
    case True
    from Cons.prems have "f x \<notin> f ` set xs" by simp
    with True have "\<forall>r \<in> set xs. f r \<noteq> u" by (metis imageI)
    then have "filter (\<lambda>r. f r = u) xs = []"
      by (simp add: filter_empty_conv)
    with True show ?thesis by simp
  next
    case False
    with Cons show ?thesis by simp
  qed
qed

text \<open>
  Claim C4. In every reachable state of the row collection (the state left by any
  sequence of computed rows), after the upsert of a row the collection holds at most
  one row per username, every stored row of another username is still in it, and the
  rows of the other usernames are the same rows in the same order as before.
\<close>

theorem handleRowComputed_one_row_per_username:
  "(\<forall>u. length (filter (\<lambda>r. row_username r = u)
                   (handleRowComputed (tableData_after computed) row)) \<le> 1) \<and>
   (\<forall>r \<in> set (tableData_after computed).
      row_username r \<noteq> row_username row \<longrightarrow>
      r \<in> set (handleRowComputed (tableData_after computed) row)) \<and>
   filter (\<lambda>r. row_username r \<noteq> row_username row)
     (handleRowComputed (tableData_after computed) row) =
   filter (\<lambda>r. row_username r \<noteq> row_username row) (tableData_after computed)"
proof -
  have "distinct (map row_username (handleRowComputed (tableData_after computed) row))"
    by (rule distinct_handleRowComputed) (rule distinct_tableData_after)
  then have "\<forall>u. length (filter (\<lambda>r. row_username r = u)
                   (handleRowComputed (tableData_after computed) row)) \<le> 1"
    by (blast intro: distinct_at_most_one)
  moreover have "filter (\<lambda>r. row_username r \<noteq> row_username row)
     (handleRowComputed (tableData_after computed) row) =
   filter (\<lambda>r. row_username r \<noteq> row_username row) (tableData_after computed)"
    by (simp add: handleRowComputed_def)
  moreover have "\<forall>r \<in> set (tableData_after computed).
      row_username r \<noteq> row_username row \<longrightarrow>
      r \<in> set (handleRowComputed (tableData_after computed) row)"
    by (simp add: handleRowComputed_def)
  ultimately show ?thesis by blast
qed

theorem handleRowComputed_one_row_per_username_witness:
  "tableData_after [\<lparr>row_username = ''ann'', statuses = [(''loops'', ''ERROR'')]\<rparr>,
                    \<lparr>row_username = ''bob'', statuses = []\<rparr>] =
     [\<lparr>row_username = ''ann'', statuses = [(''loops'', ''ERROR'')]\<rparr>,
      \<lparr>row_username = ''bob'', statuses = []\<rparr>] \<and>
   row_username \<lparr>row_username = ''bob'', statuses = []\<rparr> \<noteq>
     row_username \<lparr>row_username = ''ann'', statuses = [(''loops'', ''SUCCESSFUL'')]\<rparr> \<and>
   handleRowComputed
     (tableData_after [\<lparr>row_username = ''ann'', statuses = [(''loops'', ''ERROR'')]\<rparr>,
                       \<lparr>row_username = ''bob'', statuses = []\<rparr>])
     \<lparr>row_username = ''ann'', statuses = [(''loops'', ''SUCCESSFUL'')]\<rparr> =
     [\<lparr>row_username = ''bob'', statuses = []\<rparr>,
      \<lparr>row_username = ''ann'', statuses = [(''loops'', ''SUCCESSFUL'')]\<rparr>] \<and>
   length (filter (\<lambda>r. row_username r = ''ann'')
     (handleRowComputed
        (tableData_after [\<lparr>row_username = ''ann'', statuses = [(''loops'', ''ERROR'')]\<rparr>,
                          \<lparr>row_username = ''bob'', statuses = []\<rparr>])
        \<lparr>row_username = ''ann'', statuses = [(''loops'', ''SUCCESSFUL'')]\<rparr>)) \<le> 1 \<and>
   \<lparr>row_username = ''bob'', statuses = []\<rparr> \<in> set
     (handleRowComputed
        (tableData_after [\<lparr>row_username = ''ann'', statuses = [(''loops'', ''ERROR'')]\<rparr>,
                          \<lparr>row_username = ''bob'', statuses = []\<rparr>])
        \<lparr>row_username = ''ann'', statuses = [(''loops'', ''SUCCESSFUL'')]\<rparr>)"
  using handleRowComputed_one_row_per_username
    [of "[\<lparr>row_username = ''ann'', statuses = [(''loops'', ''ERROR'')]\<rparr>,
          \<lparr>row_username = ''bob'', statuses = []\<rparr>]"
        "\<lparr>row_username = ''ann'', statuses = [(''loops'', ''SUCCESSFUL'')]\<rparr>"]
  by (simp add: tableData_after_def handleRowComputed_def)

text \<open>
  Claim C5. The upsert is idempotent: from any collection, upserting the same row a
  second time gives the collection the first upsert gave, and that collection holds
  exactly one row of the row's username.
\<close>

theorem handleRowComputed_idempotent:
  "handleRowComputed (handleRowComputed tableData row) row = handleRowComputed tableData row \<and>
   length (filter (\<lambda>r. row_username r = row_username row)
             (handleRowComputed tableData row)) = 1"
  by (simp add: handleRowComputed_def)

section \<open>Status Presenter: the four symbols\<close>

text \<open>
  Claim C6. \<^verbatim>\<open>getEmoji\<close> is defined on every string, on \<^verbatim>\<open>null\<close> and on
  \<^verbatim>\<open>undefined\<close>: the two spellings of success, of failure and of error give the
  success, failure and error symbol, and every other argument, among them the empty
  string, \<^verbatim>\<open>null\<close>, \<^verbatim>\<open>undefined\<close> and \<^verbatim>\<open>"WHATEVER"\<close>, gives the blank symbol.
  The four symbols are different strings. The \<^verbatim>\<open>switch\<close> has a default and no
  operation that throws.
\<close>

theorem getEmoji_total_mapping:
  "getEmoji (Value ''SUCCESSFUL'') = success_symbol \<and>
   getEmoji (Value ''Completed'') = success_symbol \<and>
   getEmoji (Value ''UNSUCCESSFUL'') = failure_symbol \<and>
   getEmoji (Value ''Incomplete'') = failure_symbol \<and>
   getEmoji (Value ''ERROR'') = error_symbol \<and>
   getEmoji (Value ''Error'') = error_symbol \<and>
   (\<forall>st. st \<notin> {Value ''SUCCESSFUL'', Value ''Completed'', Value ''UNSUCCESSFUL'',
                Value ''Incomplete'', Value ''ERROR'', Value ''Error''} \<longrightarrow>
         getEmoji st = blank_symbol) \<and>
   getEmoji (Value '''') = blank_symbol \<and>
   getEmoji Null = blank_symbol \<and>
   getEmoji Undefined = blank_symbol \<and>
   getEmoji (Value ''WHATEVER'') = blank_symbol \<and>
   distinct [success_symbol, failure_symbol, error_symbol, blank_symbol]"
  by (simp add: getEmoji_def success_symbol_def failure_symbol_def error_symbol_def
      blank_symbol_def)

theorem getEmoji_total_mapping_witness:
  "Value ''whatever'' \<notin> {Value ''SUCCESSFUL'', Value ''Completed'', Value ''UNSUCCESSFUL'',
       Value ''Incomplete'', Value ''ERROR'', Value ''Error''} \<and>
   getEmoji (Value ''whatever'') = blank_symbol"
  using getEmoji_total_mapping by simp

section \<open>Progress Resolver: no attempt\<close>

lemma map_of_obj_set:
  "map_of (obj_set k v props) =
     (if k = ''__proto__'' then map_of props else (map_of props)(k \<mapsto> v))"
  by (simp add: obj_set_def map_of_assoc_set)

lemma map_of_fold_statuses:
  "map_of (fold (\<lambda>ex statuses.
                   obj_set (exercise_name ex) (rawStatus latest (exercise_name ex)) statuses)
             exs acc) n =
   (if n \<in> exercise_name ` set exs \<and> n \<noteq> ''__proto__''
    then Some (rawStatus latest n) else map_of acc n)"
  by (induction exs arbitrary: acc) (auto simp: map_of_obj_set)

lemma map_of_computedStatuses:
  "map_of (computedStatuses latest exs) n =
   (if n \<in> exercise_name ` set exs \<and> n \<noteq> ''__proto__''
    then Some (rawStatus latest n) else None)"
  by (simp add: computedStatuses_def map_of_fold_statuses)

lemma rawStatus_no_attempt:
  assumes "\<forall>exercises. (n, exercises) \<in> set progress \<longrightarrow> exercises = []"
  shows "rawStatus (latestStatus (Some progress) False) n = []"
proof (cases "map_of (rev progress) n")
  case None
  then show ?thesis by (simp add: rawStatus_def map_of_latestStatus nullish_def)
next
  case (Some exercises)
  then have "(n, exercises) \<in> set progress" by (auto dest: map_of_SomeD)
  with assms have "exercises = []" by blast
  with Some show ?thesis
    by (simp add: rawStatus_def map_of_latestStatus nullish_def array_at_empty)
qed

text \<open>
  Claim C10, as amended. If every sequence the progress map holds for a filtered
  exercise is empty (the name is bound to an empty sequence, or is not in the map at
  all), the cell drawn for the exercise is the blank symbol, and, when the exercise is
  not named \<^verbatim>\<open>__proto__\<close>, reading the exercise's status from the row that is computed
  and upserted for the student gives the empty string. \<^verbatim>\<open>at(-1)\<close> gives
  \<^verbatim>\<open>undefined\<close> on the empty sequence and the optional chain passes it on, so
  nothing on this path throws.
\<close>

theorem empty_sequence_is_blank:
  assumes "ex \<in> set filteredExs"
    and "\<forall>exercises. (exercise_name ex, exercises) \<in> set progress \<longrightarrow> exercises = []"
  shows "renderCell (latestStatus (Some progress) False) ex = blank_symbol \<and>
         row_username (last (rowComputed student (latestStatus (Some progress) False)
                                   filteredExs False tableData)) = username student \<and>
         (exercise_name ex \<noteq> ''__proto__'' \<longrightarrow>
            obj_get (statuses (last (rowComputed student (latestStatus (Some progress) False)
                                       filteredExs False tableData)))
              (exercise_name ex) = JsString [])"
proof -
  have "rawStatus (latestStatus (Some progress) False) (exercise_name ex) = []"
    using assms(2) by (rule rawStatus_no_attempt)
  with assms(1) show ?thesis
    by (simp add: rowComputed_def handleRowComputed_def obj_get_def map_of_computedStatuses
        renderCell_def getEmoji_def blank_symbol_def)
qed

theorem empty_sequence_is_blank_witness:
  "\<lparr>exercise_name = ''loops''\<rparr> \<in> set [\<lparr>exercise_name = ''arrays''\<rparr>, \<lparr>exercise_name = ''loops''\<rparr>] \<and>
   map snd (filter (\<lambda>p. fst p = ''loops'') [(''loops'', [] :: StudentExercise list)]) = [[]] \<and>
   ''loops'' \<noteq> ''__proto__'' \<and>
   rowComputed \<lparr>student_id = 1 :: int, username = ''ann''\<rparr>
     (latestStatus (Some [(''loops'', [] :: StudentExercise list)]) False)
     [\<lparr>exercise_name = ''arrays''\<rparr>, \<lparr>exercise_name = ''loops''\<rparr>] False [] =
     [\<lparr>row_username = ''ann'', statuses = [(''arrays'', []), (''loops'', [])]\<rparr>] \<and>
   obj_get (statuses (last (rowComputed \<lparr>student_id = 1 :: int, username = ''ann''\<rparr>
     (latestStatus (Some [(''loops'', [] :: StudentExercise list)]) False)
     [\<lparr>exercise_name = ''arrays''\<rparr>, \<lparr>exercise_name = ''loops''\<rparr>] False []))) ''loops'' =
     JsString [] \<and>
   renderCell (latestStatus (Some [(''loops'', [] :: StudentExercise list)]) False)
     \<lparr>exercise_name = ''loops''\<rparr> = blank_symbol"
proof -
  have run: "rowComputed \<lparr>student_id = 1 :: int, username = ''ann''\<rparr>
     (latestStatus (Some [(''loops'', [] :: StudentExercise list)]) False)
     [\<lparr>exercise_name = ''arrays''\<rparr>, \<lparr>exercise_name = ''loops''\<rparr>] False [] =
     [\<lparr>row_username = ''ann'', statuses = [(''arrays'', []), (''loops'', [])]\<rparr>]"
    by (simp add: rowComputed_def handleRowComputed_def computedStatuses_def obj_set_def
        rawStatus_def latestStatus_def array_at_def nullish_def)
  have m: "\<lparr>exercise_name = ''loops''\<rparr> \<in> set [\<lparr>exercise_name = ''arrays''\<rparr>, \<lparr>exercise_name = ''loops''\<rparr>]"
    by simp
  have e: "\<forall>exercises. (exercise_name \<lparr>exercise_name = ''loops''\<rparr>, exercises) \<in>
        set [(''loops'', [] :: StudentExercise list)] \<longrightarrow> exercises = []"
    by simp
  from empty_sequence_is_blank
         [OF m e, where student = "\<lparr>student_id = 1 :: int, username = ''ann''\<rparr>"
            and tableData = "[]"]
       run m e
  show ?thesis by simp
qed

text \<open>
  Claim C10, as stated, has the empty string as the row's status for every exercise
  with an empty sequence. For the exercise named \<^verbatim>\<open>__proto__\<close> the assignment
  \<^verbatim>\<open>statuses["__proto__"] = ""\<close> stores nothing: the row of \<^verbatim>\<open>ann\<close> has no status of
  its own, and reading \<^verbatim>\<open>row.statuses["__proto__"]\<close> gives the inherited object, not
  the empty string.
\<close>

theorem empty_sequence_proto_not_stored:
  "rowComputed \<lparr>student_id = 1 :: int, username = ''ann''\<rparr>
     (latestStatus (Some [(''__proto__'', [] :: StudentExercise list)]) False)
     [\<lparr>exercise_name = ''__proto__''\<rparr>] False [] =
     [\<lparr>row_username = ''ann'', statuses = []\<rparr>] \<and>
   obj_get (statuses (last (rowComputed \<lparr>student_id = 1 :: int, username = ''ann''\<rparr>
     (latestStatus (Some [(''__proto__'', [] :: StudentExercise list)]) False)
     [\<lparr>exercise_name = ''__proto__''\<rparr>] False []))) ''__proto__'' \<noteq> JsString []"
  by (simp add: rowComputed_def handleRowComputed_def computedStatuses_def obj_set_def
      obj_get_def objectPrototypeMembers_def)

section \<open>Snapshot Exporter: the document\<close>

text \<open>
  Claim C8. With no aggregated row the exporter returns before it builds anything:
  no document, no download, at any time and for any exercise list.
\<close>

theorem downloadCSV_no_rows: "downloadCSV functionText now [] filteredExs = None"
  by (simp add: downloadCSV_def)

subsection \<open>Joining and splitting\<close>

lemma split_no_sep: "c \<notin> set f \<Longrightarrow> split c f = [f]"
  by (induction f) auto

lemma split_append_sep: "c \<notin> set f \<Longrightarrow> split c (f @ c # rest) = f # split c rest"
  by (induction f) auto

lemma split_join:
  "fs \<noteq> [] \<Longrightarrow> \<forall>f \<in> set fs. c \<notin> set f \<Longrightarrow> split c (join [c] fs) = fs"
proof (induction "[c]" fs rule: join.induct)
  case 1
  then show ?case by simp
next
  case (2 x)
  then show ?case by (simp add: split_no_sep)
next
  case (3 x y ys)
  then show ?case by (simp add: split_append_sep)
qed

lemma set_join: "set (join sep xs) \<subseteq> set sep \<union> \<Union> (set ` set xs)"
  by (induction sep xs rule: join.induct) auto

lemma join_Cons: "xs \<noteq> [] \<Longrightarrow> join sep (x # xs) = x @ sep @ join sep xs"
  by (cases xs) simp_all

lemma downloadCSV_content:
  "tableData \<noteq> [] \<Longrightarrow>
   map_option content (downloadCSV functionText now tableData exs) =
     Some (join [CHR 0x0A]
             (map (join '','')
                (csvHeaders exs #
                 map (\<lambda>row. map (js_text functionText) (csvRow exs row)) tableData)))"
  by (simp add: downloadCSV_def Let_def join_Cons comp_def)

text \<open>
  Where no column is named like a member of \<^verbatim>\<open>Object.prototype\<close>, a cell is the
  row's own status or the empty string.
\<close>

lemma csvRow_own_statuses:
  assumes "\<forall>ex \<in> set exs. exercise_name ex \<notin> set objectPrototypeMembers"
  shows "map (js_text functionText) (csvRow exs row) =
           row_username row #
           map (\<lambda>ex. case map_of (statuses row) (exercise_name ex) of
                        None \<Rightarrow> [] | Some s \<Rightarrow> s) exs"
  using assms
  by (auto simp: csvRow_def obj_get_def js_text_def split: option.splits)

lemma split_lines:
  assumes "\<forall>fs \<in> set table. \<forall>f \<in> set fs. CHR 0x0A \<notin> set f" and "table \<noteq> []"
  shows "split (CHR 0x0A) (join [CHR 0x0A] (map (join '','') table)) = map (join '','') table"
proof (rule split_join)
  show "map (join '','') table \<noteq> []" using assms(2) by simp
  show "\<forall>l \<in> set (map (join '','') table). CHR 0x0A \<notin> set l"
  proof
    fix l assume "l \<in> set (map (join '','') table)"
    then obtain fs where fs: "fs \<in> set table" and l: "l = join '','' fs" by auto
    have "set l \<subseteq> set '','' \<union> \<Union> (set ` set fs)" unfolding l by (rule set_join)
    with assms(1) fs show "CHR 0x0A \<notin> set l" by auto
  qed
qed

lemma split_fields:
  assumes "\<forall>fs \<in> set table. fs \<noteq> [] \<and> (\<forall>f \<in> set fs. CHR '','' \<notin> set f)"
  shows "map (split (CHR '','')) (map (join '','') table) = table"
  using assms by (induction table) (simp_all add: split_join)

text \<open>
  Claim C7, as amended. For a non-empty row collection and a filtered exercise list in
  which no exercise is named like a member of \<^verbatim>\<open>Object.prototype\<close>, the exporter
  produces a document made of the header line (the label \<^verbatim>\<open>Github Username\<close>, then
  the exercise names in column order) and one line per row (the username, then the
  row's raw status for each column in the same order, the empty string where the row
  has none). The fields of a line are joined by one comma and written as they are,
  without quotes or escapes; the lines are joined by one newline, with none after the
  last row. Where no field holds a comma or a newline, splitting the document at the
  newlines and each line at the commas gives back the header and the rows, field for
  field.
\<close>

theorem downloadCSV_document:
  fixes tableData :: "TableRow list" and exs :: "'y Exercise_scheme list"
  defines "table \<equiv>
     (''Github Username'' # map exercise_name exs) #
     map (\<lambda>row. row_username row #
                map (\<lambda>ex. case map_of (statuses row) (exercise_name ex) of
                             None \<Rightarrow> [] | Some s \<Rightarrow> s) exs)
       tableData"
  assumes "tableData \<noteq> []"
    and "\<forall>ex \<in> set exs. exercise_name ex \<notin> set objectPrototypeMembers"
  shows "map_option content (downloadCSV functionText now tableData exs) =
           Some (join [CHR 0x0A] (map (join '','') table)) \<and>
         ((\<forall>fs \<in> set table. \<forall>f \<in> set fs. CHR '','' \<notin> set f \<and> CHR 0x0A \<notin> set f) \<longrightarrow>
            map (split (CHR '','')) (split (CHR 0x0A) (join [CHR 0x0A] (map (join '','') table))) =
            table)"
proof -
  have table: "table =
      csvHeaders exs # map (\<lambda>row. map (js_text functionText) (csvRow exs row)) tableData"
    by (simp add: table_def csvHeaders_def csvRow_own_statuses [OF assms(3)])
  have ne: "\<forall>fs \<in> set table. fs \<noteq> []" by (auto simp: table_def)
  have "map (split (CHR '','')) (split (CHR 0x0A) (join [CHR 0x0A] (map (join '','') table))) =
            table"
    if free: "\<forall>fs \<in> set table. \<forall>f \<in> set fs. CHR '','' \<notin> set f \<and> CHR 0x0A \<notin> set f"
  proof -
    from free have "split (CHR 0x0A) (join [CHR 0x0A] (map (join '','') table)) =
        map (join '','') table"
      by (intro split_lines) (auto simp: table_def)
    moreover from free ne have "map (split (CHR '','')) (map (join '','') table) = table"
      by (intro split_fields) blast
    ultimately show ?thesis by simp
  qed
  with downloadCSV_content [OF assms(2), of functionText now exs] show ?thesis
    by (simp add: table)
qed

theorem downloadCSV_document_witness:
  "[\<lparr>row_username = ''ann'', statuses = [(''arrays'', []), (''loops'', ''SUCCESSFUL'')]\<rparr>] \<noteq> [] \<and>
   list_all (\<lambda>ex. exercise_name ex \<notin> set objectPrototypeMembers)
     [\<lparr>exercise_name = ''arrays''\<rparr>, \<lparr>exercise_name = ''loops''\<rparr>] \<and>
   list_all (list_all (\<lambda>f. CHR '','' \<notin> set f \<and> CHR 0x0A \<notin> set f))
     [[''Github Username'', ''arrays'', ''loops''], [''ann'', [], ''SUCCESSFUL'']] \<and>
   map_option content
     (downloadCSV nativeFunctionText 1700000000123
        [\<lparr>row_username = ''ann'', statuses = [(''arrays'', []), (''loops'', ''SUCCESSFUL'')]\<rparr>]
        [\<lparr>exercise_name = ''arrays''\<rparr>, \<lparr>exercise_name = ''loops''\<rparr>]) =
     Some (''Github Username,arrays,loops'' @ [CHR 0x0A] @ ''ann,,SUCCESSFUL'') \<and>
   map (split (CHR '','')) (split (CHR 0x0A)
       (''Github Username,arrays,loops'' @ [CHR 0x0A] @ ''ann,,SUCCESSFUL'')) =
     [[''Github Username'', ''arrays'', ''loops''], [''ann'', [], ''SUCCESSFUL'']]"
proof -
  have names: "\<forall>ex \<in> set [\<lparr>exercise_name = ''arrays''\<rparr>, \<lparr>exercise_name = ''loops''\<rparr>].
                 exercise_name ex \<notin> set objectPrototypeMembers"
    by (simp add: objectPrototypeMembers_def)
  have rows: "[\<lparr>row_username = ''ann'',
                 statuses = [(''arrays'', []), (''loops'', ''SUCCESSFUL'')]\<rparr>] \<noteq> []"
    by simp
  from downloadCSV_document
         [OF rows names, where functionText = nativeFunctionText and now = 1700000000123]
       names
  show ?thesis by simp
qed

text \<open>The export of the specification's end-to-end scenario, file name included.\<close>

lemma downloadCSV_scenario:
  "downloadCSV nativeFunctionText 1700000000123
     [\<lparr>row_username = ''ann'', statuses = [(''arrays'', []), (''loops'', ''SUCCESSFUL'')]\<rparr>]
     [\<lparr>exercise_name = ''arrays''\<rparr>, \<lparr>exercise_name = ''loops''\<rparr>] =
   Some \<lparr>filename = ''progress_1700000000.csv'', mime = ''text/csv;charset=utf-8;'',
          content = ''Github Username,arrays,loops'' @ [CHR 0x0A] @ ''ann,,SUCCESSFUL''\<rparr>"
  by (simp add: downloadCSV_def csvHeaders_def csvRow_def obj_get_def js_text_def
      objectPrototypeMembers_def show_int_def show_nat.simps)

text \<open>
  What the amended claim leaves out. A column named like an inherited method shows
  that method's text for a row that has no status of its own under that name, and the
  column \<^verbatim>\<open>__proto__\<close> shows \<^verbatim>\<open>[object Object]\<close> whatever the student has done.
\<close>

lemma downloadCSV_inherited_method:
  "map_option content
     (downloadCSV nativeFunctionText 0
        [\<lparr>row_username = ''bob'', statuses = []\<rparr>]
        [\<lparr>exercise_name = ''constructor''\<rparr>]) =
   Some (''Github Username,constructor'' @ [CHR 0x0A] @
         ''bob,function Object() { [native code] }'')"
  by (simp add: downloadCSV_def csvHeaders_def csvRow_def obj_get_def js_text_def
      objectPrototypeMembers_def nativeFunctionText_def)

lemma downloadCSV_proto_column:
  "map_option content
     (downloadCSV nativeFunctionText 0
        (rowComputed \<lparr>student_id = 1 :: int, username = ''ann''\<rparr>
           (latestStatus
              (Some [(''__proto__'', [\<lparr>exerciseProgress = Some \<lparr>status = Some ''SUCCESSFUL''\<rparr>\<rparr>])])
              False)
           [\<lparr>exercise_name = ''__proto__''\<rparr>] False [])
        [\<lparr>exercise_name = ''__proto__''\<rparr>]) =
   Some (''Github Username,__proto__'' @ [CHR 0x0A] @ ''ann,[object Object]'')"
  by (simp add: downloadCSV_def csvHeaders_def csvRow_def obj_get_def js_text_def
      objectPrototypeMembers_def rowComputed_def handleRowComputed_def computedStatuses_def
      obj_set_def)

text \<open>
  Claim C7, as stated, asks for newline-terminated rows. For the one row of
  \<^verbatim>\<open>ann\<close> and the columns \<^verbatim>\<open>arrays\<close>, \<^verbatim>\<open>loops\<close> the document ends with the last
  field of the row, not with a newline, so it is not the text in which every row is
  terminated.
\<close>

theorem downloadCSV_last_row_unterminated:
  "map_option content
     (downloadCSV nativeFunctionText 0
        [\<lparr>row_username = ''ann'', statuses = [(''arrays'', []), (''loops'', ''SUCCESSFUL'')]\<rparr>]
        [\<lparr>exercise_name = ''arrays''\<rparr>, \<lparr>exercise_name = ''loops''\<rparr>]) =
   Some (''Github Username,arrays,loops'' @ [CHR 0x0A] @ ''ann,,SUCCESSFUL'') \<and>
   map_option content
     (downloadCSV nativeFunctionText 0
        [\<lparr>row_username = ''ann'', statuses = [(''arrays'', []), (''loops'', ''SUCCESSFUL'')]\<rparr>]
        [\<lparr>exercise_name = ''arrays''\<rparr>, \<lparr>exercise_name = ''loops''\<rparr>]) \<noteq>
   Some (newline_terminated_rows
           [[''Github Username'', ''arrays'', ''loops''], [''ann'', [], ''SUCCESSFUL'']])"
  by (simp add: downloadCSV_def csvHeaders_def csvRow_def obj_get_def js_text_def
      objectPrototypeMembers_def newline_terminated_rows_def)

end
